theory Spec2Isabelle
  imports
    Complex_Main
    "HOL-Library.Char_ord"
    "HOL-Library.List_Lexorder"
    "HOL-Library.Product_Lexorder"
    "HOL-Library.Multiset"
begin

section \<open>The dashboard script \<open>app2.py\<close>: data model\<close>

text \<open>
  The script loads one CSV table into a pandas DataFrame, reads three sidebar
  multiselects, builds one boolean mask from them, and hands the masked frame to a series
  of reductions (\<open>mean\<close>, \<open>sum\<close>, \<open>nunique\<close>, \<open>groupby(...).mean()\<close>,
  \<open>value_counts\<close>) whose results are passed to the plotting calls.

  A DataFrame is modelled as the list of its rows, in index order. A float column holds
  \<open>rat option\<close>: \<open>None\<close> is the missing value (NaN), \<open>Some q\<close> a number. The
  aggregated tables are given in exact arithmetic; the grouped mean is given a second
  time with the rounding of IEEE doubles, in its own section.
  The three key columns are always present (integers and strings).
\<close>

record row =
  Year :: int
  Country :: string
  Industry :: string
  AI_Adoption_Rate :: "rat option"
  AI_Generated_Content_Volume :: "rat option"
  Job_Loss_Due_to_AI :: "rat option"
  Revenue_Increase_Due_to_AI :: "rat option"
  Human_AI_Collaboration_Rate :: "rat option"
  Consumer_Trust_in_AI :: "rat option"
  Top_AI_Tools_Used :: string
  Regulation_Status :: string

type_synonym dataframe = "row list"

datatype error = ValueError | IndexError

section \<open>Sidebar: distinct values and the multiselect widgets\<close>

text \<open>
  \<open>Series.unique()\<close> returns the distinct values in order of first appearance;
  \<open>sorted(...)\<close> puts them in ascending order (integers numerically, strings
  lexicographically by character code).
\<close>

fun unique_acc :: "'a list \<Rightarrow> 'a list \<Rightarrow> 'a list" where
  "unique_acc seen [] = seen"
| "unique_acc seen (x # xs) =
     (if x \<in> set seen then unique_acc seen xs else unique_acc (seen @ [x]) xs)"

definition unique :: "'a list \<Rightarrow> 'a list" where
  "unique xs = unique_acc [] xs"

definition sorted_py :: "'a::linorder list \<Rightarrow> 'a list" where
  "sorted_py xs = sort xs"

definition years :: "dataframe \<Rightarrow> int list" where
  "years df = sorted_py (unique (map Year df))"

definition countries :: "dataframe \<Rightarrow> string list" where
  "countries df = sorted_py (unique (map Country df))"

definition industries :: "dataframe \<Rightarrow> string list" where
  "industries df = sorted_py (unique (map Industry df))"

definition default_years :: "dataframe \<Rightarrow> int list" where
  "default_years df = years df"

definition default_countries :: "dataframe \<Rightarrow> string list" where
  "default_countries df = countries df"

definition default_industries :: "dataframe \<Rightarrow> string list" where
  "default_industries df = industries df"

text \<open>
  A multiselect returns the user's current choice, or its \<open>default\<close> while the user has
  not touched it. The widget state is what the framework holds between reruns: \<open>None\<close>
  for an untouched widget.
\<close>

definition multiselect :: "'a list \<Rightarrow> 'a list \<Rightarrow> 'a list option \<Rightarrow> 'a list" where
  "multiselect options dflt state = (case state of None \<Rightarrow> dflt | Some chosen \<Rightarrow> chosen)"

record widgets =
  years_multiselect :: "int list option"
  countries_multiselect :: "string list option"
  industries_multiselect :: "string list option"
  industries_unkeyed :: "string list option"

section \<open>Applying the filters\<close>

text \<open>
  \<open>col.isin(values)\<close> is the element-wise membership mask, \<open>&\<close> the element-wise
  conjunction of two masks over the same index, and \<open>df[mask]\<close> keeps the rows whose
  mask entry is true, in their order; a mask of another length is refused with
  \<open>ValueError\<close>.
\<close>

definition isin :: "'a list \<Rightarrow> 'a list \<Rightarrow> bool list" where
  "isin col vals = map (\<lambda>x. x \<in> set vals) col"

definition mask_and :: "bool list \<Rightarrow> bool list \<Rightarrow> bool list" where
  "mask_and a b = map2 (\<and>) a b"

definition boolean_index :: "dataframe \<Rightarrow> bool list \<Rightarrow> error + dataframe" where
  "boolean_index df bmask =
     (if length bmask \<noteq> length df then Inl ValueError
      else Inr (map fst (filter snd (zip df bmask))))"

definition filtered_df ::
  "dataframe \<Rightarrow> int list \<Rightarrow> string list \<Rightarrow> string list \<Rightarrow> error + dataframe" where
  "filtered_df df selected_years selected_countries selected_industries =
     boolean_index df
       (mask_and
          (mask_and (isin (map Year df) selected_years)
                    (isin (map Country df) selected_countries))
          (isin (map Industry df) selected_industries))"

text \<open>
  The part of the script from the sidebar to \<open>filtered_df\<close>. The script assigns
  \<open>selected_industries\<close> twice, from two widgets with the same label; the second
  assignment is the one the filter reads.
\<close>

definition script_filtered_df :: "dataframe \<Rightarrow> widgets \<Rightarrow> error + dataframe" where
  "script_filtered_df df w =
     (let selected_years =
            multiselect (years df) (default_years df) (years_multiselect w);
          selected_countries =
            multiselect (countries df) (default_countries df) (countries_multiselect w);
          selected_industries =
            multiselect (industries df) (default_industries df) (industries_multiselect w);
          selected_industries =
            multiselect (industries df) (default_industries df) (industries_unkeyed w)
      in filtered_df df selected_years selected_countries selected_industries)"

section \<open>Reductions of a column\<close>

text \<open>
  The reductions are library calls; they are modelled by what the library documents.
  \<open>Series.mean()\<close> and \<open>Series.sum()\<close> skip missing values (\<open>skipna=True\<close>):
  the mean of no values is NaN, the sum of no values is \<open>0.0\<close>.
  \<open>Series.nunique()\<close> counts the distinct values.
\<close>

fun dropna :: "'a option list \<Rightarrow> 'a list" where
  "dropna [] = []"
| "dropna (None # xs) = dropna xs"
| "dropna (Some v # xs) = v # dropna xs"

definition series_mean :: "rat option list \<Rightarrow> rat option" where
  "series_mean xs =
     (let vs = dropna xs
      in if vs = [] then None else Some (sum_list vs / of_nat (length vs)))"

definition series_sum :: "rat option list \<Rightarrow> rat option" where
  "series_sum xs = Some (sum_list (dropna xs))"

definition nunique :: "'a list \<Rightarrow> nat" where
  "nunique xs = length (unique xs)"

text \<open>
  \<open>Series.value_counts().reset_index()\<close>: one row per distinct value with the number
  of its occurrences, most frequent first.
\<close>

definition value_counts :: "'a list \<Rightarrow> ('a \<times> nat) list" where
  "value_counts xs =
     sort_key (\<lambda>(k, n). - int n) (map (\<lambda>k. (k, length (filter (\<lambda>x. x = k) xs))) (unique xs))"

section \<open>Group-by and sorting of the aggregated table\<close>

text \<open>
  \<open>df.groupby(key)\<close> splits the frame into one group per distinct key that occurs,
  the groups in ascending key order (\<open>sort=True\<close>); a list of two key columns is
  the pair of the two values, ordered lexicographically.
  \<open>groupby(key)[col].mean().reset_index()\<close> is then the table of pairs (key, mean of
  the group's column).
\<close>

definition groupby :: "(row \<Rightarrow> 'k::linorder) \<Rightarrow> dataframe \<Rightarrow> ('k \<times> dataframe) list" where
  "groupby key df =
     map (\<lambda>k. (k, filter (\<lambda>r. key r = k) df)) (sorted_py (unique (map key df)))"

definition groupby_mean ::
  "(row \<Rightarrow> 'k::linorder) \<Rightarrow> (row \<Rightarrow> rat option) \<Rightarrow> dataframe \<Rightarrow> ('k \<times> rat option) list" where
  "groupby_mean key col df = map (\<lambda>(k, g). (k, series_mean (map col g))) (groupby key df)"

text \<open>
  \<open>table.sort_values(col, ascending=False)\<close>: the rows with a value in descending
  order of the value, then the rows whose value is missing (\<open>na_position='last'\<close>).
  The library's default sort does not promise an order among equal values; the model
  keeps them in table order.
\<close>

definition sort_values_desc :: "('k \<times> rat option) list \<Rightarrow> ('k \<times> rat option) list" where
  "sort_values_desc t =
     map (\<lambda>(k, x). (k, Some x)) (sort_key (\<lambda>(k, x). - x) [(k, x). (k, Some x) \<leftarrow> t])
     @ filter (\<lambda>(k, v). v = None) t"

section \<open>The tabs: what each chart and metric is computed from\<close>

text \<open>The metric select boxes of the Geographical, Industry and Trends tabs.\<close>

datatype metric =
    AI_Adoption_Rate_pct
  | Job_Loss_Due_to_AI_pct
  | Revenue_Increase_Due_to_AI_pct
  | Human_AI_Collaboration_Rate_pct
  | Consumer_Trust_in_AI_pct

fun column :: "metric \<Rightarrow> row \<Rightarrow> rat option" where
  "column AI_Adoption_Rate_pct = AI_Adoption_Rate"
| "column Job_Loss_Due_to_AI_pct = Job_Loss_Due_to_AI"
| "column Revenue_Increase_Due_to_AI_pct = Revenue_Increase_Due_to_AI"
| "column Human_AI_Collaboration_Rate_pct = Human_AI_Collaboration_Rate"
| "column Consumer_Trust_in_AI_pct = Consumer_Trust_in_AI"

text \<open>The radio control of the Trends tab.\<close>

datatype group_by = By_Country | By_Industry

fun group_column :: "group_by \<Rightarrow> row \<Rightarrow> string" where
  "group_column By_Country = Country"
| "group_column By_Industry = Industry"

subsection \<open>Overview tab: the KPI row\<close>

definition avg_adoption :: "dataframe \<Rightarrow> rat option" where
  "avg_adoption fv = series_mean (map AI_Adoption_Rate fv)"

definition avg_job_loss :: "dataframe \<Rightarrow> rat option" where
  "avg_job_loss fv = series_mean (map Job_Loss_Due_to_AI fv)"

definition avg_revenue :: "dataframe \<Rightarrow> rat option" where
  "avg_revenue fv = series_mean (map Revenue_Increase_Due_to_AI fv)"

definition avg_trust :: "dataframe \<Rightarrow> rat option" where
  "avg_trust fv = series_mean (map Consumer_Trust_in_AI fv)"

definition total_content :: "dataframe \<Rightarrow> rat option" where
  "total_content fv = series_sum (map AI_Generated_Content_Volume fv)"

definition avg_collab :: "dataframe \<Rightarrow> rat option" where
  "avg_collab fv = series_mean (map Human_AI_Collaboration_Rate fv)"

definition num_countries :: "dataframe \<Rightarrow> nat" where
  "num_countries fv = nunique (map Country fv)"

definition num_industries :: "dataframe \<Rightarrow> nat" where
  "num_industries fv = nunique (map Industry fv)"

subsection \<open>Geographical tab\<close>

text \<open>
  \<open>country_means\<close> is the per-country mean of every numeric column; the choropleth
  reads its adoption-rate column, which is the one kept here.
\<close>

definition country_means :: "dataframe \<Rightarrow> (string \<times> rat option) list" where
  "country_means fv = groupby_mean Country AI_Adoption_Rate fv"

definition content_volume :: "dataframe \<Rightarrow> (string \<times> rat option) list" where
  "content_volume fv = groupby_mean Country AI_Generated_Content_Volume fv"

definition content_volume_bars :: "dataframe \<Rightarrow> (string \<times> rat option) list" where
  "content_volume_bars fv = sort_values_desc (content_volume fv)"

definition country_metric :: "metric \<Rightarrow> dataframe \<Rightarrow> (string \<times> rat option) list" where
  "country_metric m fv = groupby_mean Country (column m) fv"

definition country_metric_bars :: "metric \<Rightarrow> dataframe \<Rightarrow> (string \<times> rat option) list" where
  "country_metric_bars m fv = sort_values_desc (country_metric m fv)"

subsection \<open>Industry tab\<close>

definition industry_metric :: "metric \<Rightarrow> dataframe \<Rightarrow> (string \<times> rat option) list" where
  "industry_metric m fv = groupby_mean Industry (column m) fv"

definition industry_metric_bars :: "metric \<Rightarrow> dataframe \<Rightarrow> (string \<times> rat option) list" where
  "industry_metric_bars m fv = sort_values_desc (industry_metric m fv)"

subsection \<open>Trends tab\<close>

definition country_trend :: "dataframe \<Rightarrow> ((int \<times> string) \<times> rat option) list" where
  "country_trend fv = groupby_mean (\<lambda>r. (Year r, Country r)) AI_Adoption_Rate fv"

definition industry_trend :: "dataframe \<Rightarrow> ((int \<times> string) \<times> rat option) list" where
  "industry_trend fv = groupby_mean (\<lambda>r. (Year r, Industry r)) AI_Adoption_Rate fv"

definition time_trend ::
  "group_by \<Rightarrow> metric \<Rightarrow> dataframe \<Rightarrow> ((int \<times> string) \<times> rat option) list" where
  "time_trend g m fv = groupby_mean (\<lambda>r. (Year r, group_column g r)) (column m) fv"

subsection \<open>Deep Dive tab\<close>

definition tool_counts :: "dataframe \<Rightarrow> (string \<times> nat) list" where
  "tool_counts fv = value_counts (map Top_AI_Tools_Used fv)"

section \<open>The page as a sequence of display calls\<close>

text \<open>
  Every rerun executes the script from top to bottom. Each display call either puts an
  element on the page or raises; an exception ends the run, and the elements displayed
  before it stay on the page. An element records the data handed to the display call:
  a metric value, the filtered frame itself (\<open>st.dataframe\<close> and the plotting calls
  that take the frame), an aggregated table, or the data pairs of a pie chart.
\<close>

datatype element =
    Metric "rat option"
  | Count_metric nat
  | Frame_chart dataframe
  | Table_chart "(string \<times> rat option) list"
  | Trend_chart "((int \<times> string) \<times> rat option) list"
  | Count_chart "(string \<times> nat) list"
  | Pie_chart "(string \<times> nat) list"

fun run :: "(error + element) list \<Rightarrow> element list \<times> error option" where
  "run [] = ([], None)"
| "run (Inl e # steps) = ([], Some e)"
| "run (Inr x # steps) = (case run steps of (xs, raised) \<Rightarrow> (x # xs, raised))"

text \<open>
  The controls of the tabs: the three metric select boxes, the group-by radio, and the
  two select boxes of the tool analysis, whose options are computed from the filtered
  frame. A select box returns the user's choice if it is among the options, the first
  option while untouched, and \<open>None\<close> when there is no option.
\<close>

record controls =
  country_metric_choice :: metric
  industry_metric_choice :: metric
  trend_metric_choice :: metric
  group_by_choice :: group_by
  industry_choice :: "string option"
  country_choice :: "string option"

definition selectbox :: "'a list \<Rightarrow> 'a option \<Rightarrow> 'a option" where
  "selectbox options state =
     (case options of
        [] \<Rightarrow> None
      | x # _ \<Rightarrow> (case state of
                   None \<Rightarrow> Some x
                 | Some c \<Rightarrow> if c \<in> set options then Some c else Some x))"

text \<open>
  Tool analysis: \<open>filtered_df[filtered_df['Industry'] == selected_industry]\<close>, its
  value counts, and the list \<open>data\<close> of (tool, count) pairs built from them; the same
  for the country. Comparing the column with \<open>None\<close> selects no row.
\<close>

definition industry_tools :: "dataframe \<Rightarrow> string option \<Rightarrow> dataframe" where
  "industry_tools fv selected_industry =
     filter (\<lambda>r. Some (Industry r) = selected_industry) fv"

definition country_tools :: "dataframe \<Rightarrow> string option \<Rightarrow> dataframe" where
  "country_tools fv selected_country =
     filter (\<lambda>r. Some (Country r) = selected_country) fv"

definition industry_tool_data :: "dataframe \<Rightarrow> string option \<Rightarrow> (string \<times> nat) list" where
  "industry_tool_data fv state =
     (let selected_industry = selectbox (unique (map Industry fv)) state
      in value_counts (map Top_AI_Tools_Used (industry_tools fv selected_industry)))"

definition country_tool_data :: "dataframe \<Rightarrow> string option \<Rightarrow> (string \<times> nat) list" where
  "country_tool_data fv state =
     (let selected_country = selectbox (unique (map Country fv)) state
      in value_counts (map Top_AI_Tools_Used (country_tools fv selected_country)))"

text \<open>
  \<open>Pie().add(series_name, data_pair, ...)\<close> inspects \<open>data_pair[0]\<close> to tell items
  from pairs; on an empty list that index raises \<open>IndexError\<close>.
\<close>

definition pie_add :: "(string \<times> nat) list \<Rightarrow> error + element" where
  "pie_add data_pair =
     (case data_pair of [] \<Rightarrow> Inl IndexError | _ # _ \<Rightarrow> Inr (Pie_chart data_pair))"

text \<open>
  The display calls of the five tabs, in script order. The scatter plot, the box plots
  and the heatmap take the filtered frame; the correlation matrix the heatmap draws is
  not computed here.
\<close>

definition tab1_steps :: "dataframe \<Rightarrow> (error + element) list" where
  "tab1_steps fv =
     [Inr (Metric (avg_adoption fv)), Inr (Metric (avg_job_loss fv)),
      Inr (Metric (avg_revenue fv)), Inr (Metric (avg_trust fv)),
      Inr (Metric (total_content fv)), Inr (Metric (avg_collab fv)),
      Inr (Count_metric (num_countries fv)), Inr (Count_metric (num_industries fv)),
      Inr (Frame_chart fv), Inr (Frame_chart fv), Inr (Frame_chart fv)]"

definition tab2_steps :: "dataframe \<Rightarrow> controls \<Rightarrow> (error + element) list" where
  "tab2_steps fv ctl =
     [Inr (Table_chart (country_means fv)),
      Inr (Table_chart (content_volume_bars fv)),
      Inr (Table_chart (country_metric_bars (country_metric_choice ctl) fv))]"

definition tab3_steps :: "dataframe \<Rightarrow> controls \<Rightarrow> (error + element) list" where
  "tab3_steps fv ctl =
     [Inr (Frame_chart fv), Inr (Frame_chart fv),
      Inr (Table_chart (industry_metric_bars (industry_metric_choice ctl) fv))]"

definition tab4_steps :: "dataframe \<Rightarrow> controls \<Rightarrow> (error + element) list" where
  "tab4_steps fv ctl =
     [Inr (Trend_chart (country_trend fv)),
      Inr (Trend_chart (industry_trend fv)),
      Inr (Trend_chart (time_trend (group_by_choice ctl) (trend_metric_choice ctl) fv))]"

definition tab5_steps :: "dataframe \<Rightarrow> controls \<Rightarrow> (error + element) list" where
  "tab5_steps fv ctl =
     [Inr (Frame_chart fv),
      Inr (Count_chart (tool_counts fv)),
      pie_add (industry_tool_data fv (industry_choice ctl)),
      pie_add (country_tool_data fv (country_choice ctl)),
      Inr (Frame_chart fv), Inr (Frame_chart fv), Inr (Frame_chart fv)]"

definition script_steps :: "dataframe \<Rightarrow> controls \<Rightarrow> (error + element) list" where
  "script_steps fv ctl =
     tab1_steps fv @ tab2_steps fv ctl @ tab3_steps fv ctl @ tab4_steps fv ctl
     @ tab5_steps fv ctl"

definition untouched_controls :: controls where
  "untouched_controls =
     \<lparr> country_metric_choice = AI_Adoption_Rate_pct,
       industry_metric_choice = AI_Adoption_Rate_pct,
       trend_metric_choice = AI_Adoption_Rate_pct,
       group_by_choice = By_Country,
       industry_choice = None, country_choice = None \<rparr>"

section \<open>Group means in double precision\<close>

text \<open>
  The numeric columns are float64. The tables above give the means in exact arithmetic;
  this section gives them as the library computes them: every intermediate result is
  rounded to the nearest double, ties to even. \<open>f64_of_rat\<close> rounds a rational to
  the 53-bit significand at its binary exponent (subnormal below \<open>2^-1022\<close>) and
  overflows to an infinity from \<open>2^1024\<close>; the sign of zero is not represented.
\<close>

datatype f64 = Fin rat | PInf | NInf | NaN

function bit_length :: "int \<Rightarrow> int" where
  "bit_length n = (if n \<le> 0 then 0 else 1 + bit_length (n div 2))"
  by pat_completeness auto
termination
  by (relation "measure nat") auto

function pow2 :: "int \<Rightarrow> rat" where
  "pow2 e = (if e = 0 then 1 else if 0 < e then 2 * pow2 (e - 1) else pow2 (e + 1) / 2)"
  by pat_completeness auto
termination
  by (relation "measure (\<lambda>e. nat \<bar>e\<bar>)") auto

declare bit_length.simps [simp del]

declare pow2.simps [simp del]

text \<open>\<open>ilog2 q\<close> is the binary exponent of a positive \<open>q\<close>: \<open>2^e \<le> q < 2^(e+1)\<close>.\<close>

definition ilog2 :: "rat \<Rightarrow> int" where
  "ilog2 q =
     (if 1 \<le> q then bit_length \<lfloor>q\<rfloor> - 1
      else - bit_length (\<lceil>1 / q\<rceil> - 1))"

definition round_half_even :: "rat \<Rightarrow> int" where
  "round_half_even q =
     (let f = \<lfloor>q\<rfloor>; d = q - of_int f
      in if d < 1 / 2 then f
         else if 1 / 2 < d then f + 1
         else if even f then f else f + 1)"

definition f64_of_rat :: "rat \<Rightarrow> f64" where
  "f64_of_rat q =
     (if q = 0 then Fin 0
      else let e = max (ilog2 \<bar>q\<bar>) (- 1022);
               ulp = pow2 (e - 52);
               r = of_int (round_half_even (q / ulp)) * ulp
           in if r = 0 then Fin 0
              else if 1024 \<le> ilog2 \<bar>r\<bar> then (if 0 < r then PInf else NInf)
              else Fin r)"

fun f64_add :: "f64 \<Rightarrow> f64 \<Rightarrow> f64" where
  "f64_add (Fin a) (Fin b) = f64_of_rat (a + b)"
| "f64_add NaN _ = NaN"
| "f64_add _ NaN = NaN"
| "f64_add PInf NInf = NaN"
| "f64_add NInf PInf = NaN"
| "f64_add PInf _ = PInf"
| "f64_add _ PInf = PInf"
| "f64_add NInf _ = NInf"
| "f64_add _ NInf = NInf"

fun f64_neg :: "f64 \<Rightarrow> f64" where
  "f64_neg (Fin a) = Fin (- a)"
| "f64_neg PInf = NInf"
| "f64_neg NInf = PInf"
| "f64_neg NaN = NaN"

definition f64_sub :: "f64 \<Rightarrow> f64 \<Rightarrow> f64" where
  "f64_sub a b = f64_add a (f64_neg b)"

fun f64_div_count :: "f64 \<Rightarrow> int \<Rightarrow> f64" where
  "f64_div_count (Fin a) n = f64_of_rat (a / of_int n)"
| "f64_div_count x n = x"

text \<open>
  The grouped mean visits the rows of a group in frame order, skips missing values, and
  keeps a running sum with a compensation term (Kahan summation); a compensation that
  has become NaN is reset to 0. The mean is the sum divided by the number of values
  that were present, NaN when there was none.
\<close>

fun kahan_step :: "f64 \<times> f64 \<Rightarrow> f64 \<Rightarrow> f64 \<times> f64" where
  "kahan_step (sumx, compensation) val =
     (let y = f64_sub val compensation;
          t = f64_add sumx y;
          c = f64_sub (f64_sub t sumx) y
      in (t, if c = NaN then Fin 0 else c))"

definition group_mean_f64 :: "rat option list \<Rightarrow> f64" where
  "group_mean_f64 xs =
     (let vs = dropna xs
      in if vs = [] then NaN
         else f64_div_count (fst (foldl kahan_step (Fin 0, Fin 0) (map f64_of_rat vs)))
                (int (length vs)))"

definition groupby_mean_f64 ::
  "(row \<Rightarrow> 'k::linorder) \<Rightarrow> (row \<Rightarrow> rat option) \<Rightarrow> dataframe \<Rightarrow> ('k \<times> f64) list" where
  "groupby_mean_f64 key col df =
     map (\<lambda>(k, g). (k, group_mean_f64 (map col g))) (groupby key df)"

definition country_metric_f64 :: "metric \<Rightarrow> dataframe \<Rightarrow> (string \<times> f64) list" where
  "country_metric_f64 m fv = groupby_mean_f64 Country (column m) fv"

definition industry_metric_f64 :: "metric \<Rightarrow> dataframe \<Rightarrow> (string \<times> f64) list" where
  "industry_metric_f64 m fv = groupby_mean_f64 Industry (column m) fv"

section \<open>Example frame\<close>

text \<open>Example rows: the three key columns, the adoption rate and the content volume.\<close>

definition mk_row :: "int \<Rightarrow> string \<Rightarrow> string \<Rightarrow> rat option \<Rightarrow> rat option \<Rightarrow> row" where
  "mk_row y c i a v =
     \<lparr> Year = y, Country = c, Industry = i, AI_Adoption_Rate = a,
       AI_Generated_Content_Volume = v, Job_Loss_Due_to_AI = None,
       Revenue_Increase_Due_to_AI = None, Human_AI_Collaboration_Rate = None,
       Consumer_Trust_in_AI = None, Top_AI_Tools_Used = ''ChatGPT'',
       Regulation_Status = ''Strict'' \<rparr>"

definition example_df :: dataframe where
  "example_df =
     [mk_row 2020 ''USA'' ''Media'' (Some 40) (Some 10),
      mk_row 2020 ''USA'' ''Media'' (Some 60) (Some 20),
      mk_row 2021 ''UK'' ''Retail'' (Some 30) (Some 5)]"


text \<open>
  Three rows of one country and industry whose adoption values cancel, and the same rows
  with the last two exchanged.
\<close>

definition cancelling_df :: dataframe where
  "cancelling_df =
     [mk_row 2020 ''USA'' ''Media'' (Some 10000000000000000) None,
      mk_row 2021 ''USA'' ''Media'' (Some 1) None,
      mk_row 2022 ''USA'' ''Media'' (Some (- 10000000000000000)) None]"

definition cancelling_df_permuted :: dataframe where
  "cancelling_df_permuted =
     [mk_row 2020 ''USA'' ''Media'' (Some 10000000000000000) None,
      mk_row 2022 ''USA'' ''Media'' (Some (- 10000000000000000)) None,
      mk_row 2021 ''USA'' ''Media'' (Some 1) None]"

section \<open>The filter\<close>

lemma boolean_index_map:
  "map fst (filter snd (zip xs (map P xs))) = filter P xs"
  by (induction xs) auto

lemma mask_and_map:
  "mask_and (map P xs) (map Q xs) = map (\<lambda>x. P x \<and> Q x) xs"
  unfolding mask_and_def by (induction xs) auto

lemma isin_map:
  "isin (map f xs) vals = map (\<lambda>x. f x \<in> set vals) xs"
  unfolding isin_def by (simp add: comp_def)

lemma filtered_df_filter:
  "filtered_df df ys cs inds =
     Inr (filter (\<lambda>r. Year r \<in> set ys \<and> Country r \<in> set cs \<and> Industry r \<in> set inds) df)"
proof -
  have "mask_and
          (mask_and (isin (map Year df) ys) (isin (map Country df) cs))
          (isin (map Industry df) inds)
        = map (\<lambda>r. (Year r \<in> set ys \<and> Country r \<in> set cs) \<and> Industry r \<in> set inds) df"
    by (simp only: isin_map mask_and_map)
  then show ?thesis
    unfolding filtered_df_def boolean_index_def
    by (simp add: boolean_index_map)
qed

text \<open>
  C1. For every frame and every selection of years, countries and industries, the filter
  returns, without error, exactly the rows whose Year, Country and Industry are all
  selected: as a list, the rows of the frame that satisfy the three memberships, in their
  order; as a set, the set comprehension of the specification. In particular the result
  is a subset of the records and every row in it satisfies all three memberships.
\<close>

theorem C1_filtered_view_is_conjunction:
  "\<exists>fv. filtered_df df ys cs inds = Inr fv
      \<and> fv = filter (\<lambda>r. Year r \<in> set ys \<and> Country r \<in> set cs \<and> Industry r \<in> set inds) df
      \<and> set fv = {r \<in> set df. Year r \<in> set ys \<and> Country r \<in> set cs \<and> Industry r \<in> set inds}
      \<and> set fv \<subseteq> set df
      \<and> (\<forall>r \<in> set fv. Year r \<in> set ys \<and> Country r \<in> set cs \<and> Industry r \<in> set inds)"
  by (simp add: filtered_df_filter)

theorem C1_filtered_view_scenario:
  "filtered_df example_df [2020] [''USA''] [''Media'']
     = Inr [mk_row 2020 ''USA'' ''Media'' (Some 40) (Some 10),
            mk_row 2020 ''USA'' ''Media'' (Some 60) (Some 20)]"
  using C1_filtered_view_is_conjunction [of example_df "[2020]" "[''USA'']" "[''Media'']"]
  by (simp add: example_df_def mk_row_def)

text \<open>
  C3. When at least one of the three selections is empty, the filter returns the empty
  frame, and it returns it as a value: no error is raised.
\<close>

theorem C3_empty_selection_gives_empty_view:
  "ys = [] \<or> cs = [] \<or> inds = [] \<Longrightarrow> filtered_df df ys cs inds = Inr []"
  by (auto simp: filtered_df_filter)

theorem C3_empty_countries_scenario:
  "filtered_df example_df [2020, 2021] [] [''Media'', ''Retail''] = Inr []"
  using C3_empty_selection_gives_empty_view
          [of "[2020, 2021]" "[]" "[''Media'', ''Retail'']" example_df]
  by simp

subsection \<open>The default selection\<close>

lemma set_unique_acc: "set (unique_acc seen xs) = set seen \<union> set xs"
  by (induction xs arbitrary: seen) auto

lemma set_unique: "set (unique xs) = set xs"
  by (simp add: unique_def set_unique_acc)

lemma set_years: "set (years df) = Year ` set df"
  by (simp add: years_def sorted_py_def set_unique)

lemma set_countries: "set (countries df) = Country ` set df"
  by (simp add: countries_def sorted_py_def set_unique)

lemma set_industries: "set (industries df) = Industry ` set df"
  by (simp add: industries_def sorted_py_def set_unique)

lemma filtered_df_defaults:
  "filtered_df df (default_years df) (default_countries df) (default_industries df) = Inr df"
proof -
  have "filter (\<lambda>r. Year r \<in> Year ` set df \<and> Country r \<in> Country ` set df
                    \<and> Industry r \<in> Industry ` set df) df = df"
    by (rule filter_True) simp
  then show ?thesis
    by (simp add: filtered_df_filter default_years_def default_countries_def
        default_industries_def set_years set_countries set_industries)
qed

text \<open>
  C4. With every distinct Year, Country and Industry of the frame selected (the sorted
  distinct values the script computes, which are also the widgets' defaults), the filter
  returns the whole frame unchanged; this is what the script computes while the three
  filtering widgets are untouched.
\<close>

theorem C4_full_selection_is_identity:
  "set (default_years df) = Year ` set df
   \<and> set (default_countries df) = Country ` set df
   \<and> set (default_industries df) = Industry ` set df
   \<and> filtered_df df (default_years df) (default_countries df) (default_industries df) = Inr df
   \<and> script_filtered_df df
        \<lparr> years_multiselect = None, countries_multiselect = None,
          industries_multiselect = first_industries, industries_unkeyed = None \<rparr> = Inr df"
proof -
  have "set (default_years df) = Year ` set df"
    by (simp add: default_years_def set_years)
  moreover have "set (default_countries df) = Country ` set df"
    by (simp add: default_countries_def set_countries)
  moreover have "set (default_industries df) = Industry ` set df"
    by (simp add: default_industries_def set_industries)
  ultimately show ?thesis
    by (simp add: filtered_df_defaults script_filtered_df_def multiselect_def)
qed

theorem C4_full_selection_scenario:
  "filtered_df example_df [2020, 2021] [''UK'', ''USA''] [''Media'', ''Retail'']
     = Inr example_df"
proof -
  have y: "default_years example_df = [2020, 2021]"
    by (simp add: default_years_def years_def sorted_py_def unique_def example_df_def mk_row_def)
  have c: "default_countries example_df = [''UK'', ''USA'']"
    by (simp add: default_countries_def countries_def sorted_py_def unique_def
        example_df_def mk_row_def)
  have i: "default_industries example_df = [''Media'', ''Retail'']"
    by (simp add: default_industries_def industries_def sorted_py_def unique_def
        example_df_def mk_row_def)
  show ?thesis
    using C4_full_selection_is_identity [where df = example_df and first_industries = None]
    by (simp add: y c i)
qed

text \<open>
  C10. The filtered frame does not depend on the first industry multiselect (the one
  with key \<open>industries_multiselect\<close>): its value is overwritten by the second, unkeyed
  widget before the mask is built. Two widget states that differ only in the first
  industry widget give the same result.
\<close>

theorem C10_first_industry_widget_is_ignored:
  "script_filtered_df df (w\<lparr>industries_multiselect := a\<rparr>)
     = script_filtered_df df (w\<lparr>industries_multiselect := b\<rparr>)"
  by (simp add: script_filtered_df_def)

theorem C10_first_industry_widget_scenario:
  "script_filtered_df example_df
     \<lparr> years_multiselect = None, countries_multiselect = None,
       industries_multiselect = Some [], industries_unkeyed = Some [''Retail''] \<rparr>
   = script_filtered_df example_df
     \<lparr> years_multiselect = None, countries_multiselect = None,
       industries_multiselect = Some [''Media''], industries_unkeyed = Some [''Retail''] \<rparr>"
  using C10_first_industry_widget_is_ignored
          [where df = example_df and a = "Some []" and b = "Some [''Media'']"
             and w = "\<lparr> years_multiselect = None, countries_multiselect = None,
                 industries_multiselect = None, industries_unkeyed = Some [''Retail''] \<rparr>"]
  by simp

section \<open>The aggregated tables\<close>

subsection \<open>Keys of a group-by\<close>

lemma distinct_unique_acc: "distinct seen \<Longrightarrow> distinct (unique_acc seen xs)"
  by (induction xs arbitrary: seen) auto

lemma distinct_unique: "distinct (unique xs)"
  by (simp add: unique_def distinct_unique_acc)

lemma groupby_mean_tabulate:
  "groupby_mean key col df =
     map (\<lambda>k. (k, series_mean (map col (filter (\<lambda>r. key r = k) df))))
         (sort (unique (map key df)))"
  by (simp add: groupby_mean_def groupby_def sorted_py_def comp_def)

lemma map_fst_groupby_mean: "map fst (groupby_mean key col df) = sort (unique (map key df))"
  by (simp add: groupby_mean_def groupby_def sorted_py_def comp_def)



lemma sorted_keys_groupby_mean: "sorted (map fst (groupby_mean key col df))"
  by (simp only: map_fst_groupby_mean) simp

lemma map_of_tabulate:
  "map_of (map (\<lambda>k. (k, f k)) ks) k = (if k \<in> set ks then Some (f k) else None)"
  by (induction ks) auto

lemma map_of_groupby_mean:
  "map_of (groupby_mean key col df) k =
     (if k \<in> key ` set df
      then Some (series_mean (map col (filter (\<lambda>r. key r = k) df))) else None)"
  by (simp only: groupby_mean_tabulate map_of_tabulate) (simp add: set_unique)

lemma in_groupby_mean:
  "(k, v) \<in> set (groupby_mean key col df) \<longleftrightarrow>
     k \<in> key ` set df \<and> v = series_mean (map col (filter (\<lambda>r. key r = k) df))"
  by (simp only: groupby_mean_tabulate) (auto simp: set_unique)

subsection \<open>Missing values\<close>

lemma dropna_append: "dropna (xs @ ys) = dropna xs @ dropna ys"
  by (induction xs rule: dropna.induct) auto

lemma dropna_map_Some: "dropna (map Some xs) = xs"
  by (induction xs) auto

lemma dropna_all_None: "\<forall>x \<in> set xs. x = None \<Longrightarrow> dropna xs = []"
  by (induction xs rule: dropna.induct) auto



lemma mset_dropna:
  "mset (dropna xs) = image_mset the (filter_mset (\<lambda>x. x \<noteq> None) (mset xs))"
  by (induction xs rule: dropna.induct) auto

lemma series_mean_single: "series_mean [x] = x"
  by (cases x) (simp_all add: series_mean_def)



lemma series_mean_mset:
  assumes "mset xs = mset ys"
  shows "series_mean xs = series_mean ys"
proof -
  have m: "mset (dropna xs) = mset (dropna ys)"
    by (simp add: mset_dropna assms)
  have "sum_list (dropna xs) = sum_list (dropna ys)"
    using m by (metis sum_mset_sum_list)
  moreover have "length (dropna xs) = length (dropna ys)"
    using m by (metis size_mset)
  moreover have "dropna xs = [] \<longleftrightarrow> dropna ys = []"
    using m by (metis mset_zero_iff)
  ultimately show ?thesis
    by (simp add: series_mean_def Let_def)
qed

subsection \<open>Sorting by value\<close>

lemma sorted_map_fst:
  "sorted (xs :: ('a::linorder \<times> 'b::linorder) list) \<Longrightarrow> sorted (map fst xs)"
  by (induction xs) (auto simp: less_eq_prod_def)

lemma sorted_years_groupby_mean:
  "sorted (map (fst \<circ> fst) (groupby_mean (\<lambda>r. (Year r, f r :: string)) col fv))"
  using sorted_map_fst [OF sorted_keys_groupby_mean [of "\<lambda>r. (Year r, f r)" col fv]]
  by simp

lemma sorted_uminus_desc:
  "sorted (map uminus (xs :: rat list)) = sorted_wrt (\<lambda>a b. b \<le> a) xs"
  by (induction xs) auto

lemma snd_sort_values_desc:
  "map snd (sort_values_desc t)
     = map Some (map snd (sort_key (\<lambda>(k, x). - x) [(k, x). (k, Some x) \<leftarrow> t]))
       @ replicate (length (filter (\<lambda>(k, v). v = None) t)) None"
proof -
  have "map snd (filter (\<lambda>(k, v). v = None) t)
          = replicate (length (filter (\<lambda>(k, v). v = None) t)) None"
    by (induction t) auto
  then show ?thesis
    by (simp add: sort_values_desc_def comp_def case_prod_beta)
qed

lemma desc_sort_key:
  "sorted_wrt (\<lambda>a b. b \<le> a) (map snd (sort_key (\<lambda>(k, x). - x) (ps :: ('k \<times> rat) list)))"
proof -
  have "sorted (map (\<lambda>(k, x). - x) (sort_key (\<lambda>(k, x). - x) ps))"
    by (rule sorted_sort_key)
  moreover have "map (\<lambda>(k, x). - x) (sort_key (\<lambda>(k, x). - x) ps)
                  = map uminus (map snd (sort_key (\<lambda>(k, x). - x) ps))"
    by (simp add: comp_def case_prod_beta)
  ultimately show ?thesis by (simp only: sorted_uminus_desc)
qed

lemma mset_sort_values_desc: "mset (sort_values_desc t) = mset t"
proof -
  have "mset (map (\<lambda>(k, x). (k, Some x)) [(k, x). (k, Some x) \<leftarrow> t])
          + mset (filter (\<lambda>(k, v). v = None) t) = mset t"
    by (induction t) (auto split: option.splits)
  then show ?thesis by (simp add: sort_values_desc_def)
qed

lemma sort_values_desc_order:
  "sorted_wrt (\<lambda>a b. b \<le> a) (dropna (map snd (sort_values_desc t)))
   \<and> map snd (sort_values_desc t)
       = map Some (dropna (map snd (sort_values_desc t)))
         @ replicate (length (filter (\<lambda>(k, v). v = None) t)) None
   \<and> mset (sort_values_desc t) = mset t"
proof -
  let ?vs = "map snd (sort_key (\<lambda>(k, x). - x) [(k, x). (k, Some x) \<leftarrow> t])"
  have d: "dropna (map snd (sort_values_desc t)) = ?vs"
    by (simp only: snd_sort_values_desc dropna_append dropna_map_Some)
       (simp add: dropna_all_None)
  show ?thesis
    by (simp only: d desc_sort_key mset_sort_values_desc simp_thms)
       (rule snd_sort_values_desc)
qed

section \<open>Properties of the aggregation layer\<close>




text \<open>
  C5 (as stated). The claim says that over an empty filtered frame every downstream
  aggregation gives an empty or NaN result and that no computation fails. With no
  country selected the filtered example frame is empty. The total content volume is a
  \<open>sum\<close>, and the sum of no values is the number 0, not NaN. The select box of the
  tool analysis has no option and returns \<open>None\<close>, the tool counts of the selected
  industry are empty, and building the pie chart from the empty list raises
  \<open>IndexError\<close>: the run of the script ends with that exception.
\<close>

theorem C5_empty_view_sum_zero_and_pie_raises:
  "filtered_df example_df [2020, 2021] [] [''Media'', ''Retail''] = Inr []
   \<and> total_content [] = Some 0
   \<and> total_content [] \<noteq> None
   \<and> industry_tool_data [] None = []
   \<and> pie_add (industry_tool_data [] None) = Inl IndexError
   \<and> snd (run (script_steps [] untouched_controls)) = Some IndexError"
  by (simp add: filtered_df_filter total_content_def series_sum_def
      industry_tool_data_def industry_tools_def selectbox_def value_counts_def unique_def
      pie_add_def script_steps_def tab1_steps_def tab2_steps_def tab3_steps_def
      tab4_steps_def tab5_steps_def)

text \<open>
  C5 (amended). When the filter returns the empty frame, the aggregations of the
  Overview, Geographical, Industry and Trends tabs and the overall tool counts are
  computed without raising: each KPI mean (adoption, job loss, revenue, trust,
  collaboration) is NaN; the group-by tables (country means, content volume, metric by
  country, metric by industry, the three trend tables) and the tool count table are
  empty; the total content volume is 0; the numbers of countries and of industries are
  0. The four tabs run to their end, each display call receiving these values. The pie
  charts of the tool analysis are not part of this statement.
\<close>

theorem C5_aggregations_of_empty_view:
  "filtered_df df ys cs inds = Inr fv \<Longrightarrow> fv = [] \<Longrightarrow>
     avg_adoption fv = None \<and> avg_job_loss fv = None \<and> avg_revenue fv = None
     \<and> avg_trust fv = None \<and> avg_collab fv = None
     \<and> total_content fv = Some 0 \<and> num_countries fv = 0 \<and> num_industries fv = 0
     \<and> country_means fv = [] \<and> content_volume_bars fv = []
     \<and> country_metric_bars m fv = [] \<and> industry_metric_bars m fv = []
     \<and> country_trend fv = [] \<and> industry_trend fv = [] \<and> time_trend g m fv = []
     \<and> tool_counts fv = []
     \<and> run (tab1_steps fv)
         = ([Metric None, Metric None, Metric None, Metric None, Metric (Some 0),
             Metric None, Count_metric 0, Count_metric 0,
             Frame_chart [], Frame_chart [], Frame_chart []], None)
     \<and> run (tab2_steps fv ctl) = ([Table_chart [], Table_chart [], Table_chart []], None)
     \<and> run (tab3_steps fv ctl) = ([Frame_chart [], Frame_chart [], Table_chart []], None)
     \<and> run (tab4_steps fv ctl) = ([Trend_chart [], Trend_chart [], Trend_chart []], None)
     \<and> take 2 (tab5_steps fv ctl) = [Inr (Frame_chart []), Inr (Count_chart [])]"
  by (simp add: avg_adoption_def avg_job_loss_def avg_revenue_def avg_trust_def avg_collab_def
      total_content_def num_countries_def num_industries_def country_means_def
      content_volume_bars_def content_volume_def country_metric_bars_def country_metric_def
      industry_metric_bars_def industry_metric_def country_trend_def industry_trend_def
      time_trend_def tool_counts_def series_mean_def series_sum_def nunique_def unique_def
      groupby_mean_def groupby_def sorted_py_def sort_values_desc_def value_counts_def
      tab1_steps_def tab2_steps_def tab3_steps_def tab4_steps_def tab5_steps_def)

theorem C5_no_country_selected_scenario:
  "filtered_df example_df [2020, 2021] [] [''Media'', ''Retail''] = Inr []
   \<and> avg_adoption [] = None \<and> avg_trust [] = None
   \<and> total_content [] = Some 0
   \<and> country_metric_bars AI_Adoption_Rate_pct [] = []
   \<and> time_trend By_Country AI_Adoption_Rate_pct [] = []
   \<and> run (tab4_steps [] untouched_controls)
       = ([Trend_chart [], Trend_chart [], Trend_chart []], None)"
  using C5_aggregations_of_empty_view
          [where df = example_df and ys = "[2020, 2021]" and cs = "[]"
             and inds = "[''Media'', ''Retail'']" and fv = "[]"
             and m = AI_Adoption_Rate_pct and g = By_Country and ctl = untouched_controls]
  by (simp add: filtered_df_filter)

text \<open>
  C6. The tables handed to the ranking bar charts (metric by country, metric by
  industry) are the aggregated tables sorted by value in descending order: the values
  that are present are in descending order, followed by the groups whose mean is missing,
  and the sorted table is a rearrangement of the aggregated one. The tables handed to the
  trend lines (grouped by Year and a second column) are in ascending order of Year.
\<close>

theorem C6_ranking_descending_trend_ascending:
  "sorted_wrt (\<lambda>a b. b \<le> a) (dropna (map snd (country_metric_bars m fv)))
   \<and> map snd (country_metric_bars m fv)
       = map Some (dropna (map snd (country_metric_bars m fv)))
         @ replicate (length (filter (\<lambda>(k, v). v = None) (country_metric m fv))) None
   \<and> mset (country_metric_bars m fv) = mset (country_metric m fv)
   \<and> sorted_wrt (\<lambda>a b. b \<le> a) (dropna (map snd (industry_metric_bars m fv)))
   \<and> map snd (industry_metric_bars m fv)
       = map Some (dropna (map snd (industry_metric_bars m fv)))
         @ replicate (length (filter (\<lambda>(k, v). v = None) (industry_metric m fv))) None
   \<and> mset (industry_metric_bars m fv) = mset (industry_metric m fv)
   \<and> sorted (map (fst \<circ> fst) (country_trend fv))
   \<and> sorted (map (fst \<circ> fst) (industry_trend fv))
   \<and> sorted (map (fst \<circ> fst) (time_trend g m fv))"
proof -
  note c = sort_values_desc_order [of "country_metric m fv"]
  note i = sort_values_desc_order [of "industry_metric m fv"]
  have t: "sorted (map (fst \<circ> fst) (time_trend g m fv))"
    unfolding time_trend_def by (rule sorted_years_groupby_mean)
  have ct: "sorted (map (fst \<circ> fst) (country_trend fv))"
    unfolding country_trend_def by (rule sorted_years_groupby_mean)
  have it: "sorted (map (fst \<circ> fst) (industry_trend fv))"
    unfolding industry_trend_def by (rule sorted_years_groupby_mean)
  show ?thesis
    unfolding country_metric_bars_def industry_metric_bars_def
    using c i t ct it by blast
qed

theorem C6_example_frame_order_scenario:
  "country_metric_bars AI_Adoption_Rate_pct example_df = [(''USA'', Some 50), (''UK'', Some 30)]
   \<and> sorted_wrt (\<lambda>a b. b \<le> a)
        (dropna (map snd (country_metric_bars AI_Adoption_Rate_pct example_df)))
   \<and> country_trend example_df = [((2020, ''USA''), Some 50), ((2021, ''UK''), Some 30)]
   \<and> sorted (map (fst \<circ> fst) (country_trend example_df))"
proof -
  have b: "country_metric_bars AI_Adoption_Rate_pct example_df
             = [(''USA'', Some 50), (''UK'', Some 30)]"
    by (simp add: country_metric_bars_def country_metric_def groupby_mean_def groupby_def
        sorted_py_def unique_def example_df_def mk_row_def series_mean_def
        sort_values_desc_def)
  have t: "country_trend example_df = [((2020, ''USA''), Some 50), ((2021, ''UK''), Some 30)]"
    by (simp add: country_trend_def groupby_mean_def groupby_def
        sorted_py_def unique_def example_df_def mk_row_def series_mean_def)
  show ?thesis
    using C6_ranking_descending_trend_ascending
            [of AI_Adoption_Rate_pct example_df By_Country] b t
    by simp
qed



text \<open>
  C9. When a group of a group-by mean consists of exactly one row, the value reported
  for that group is that row's value in the aggregated column (a missing value stays
  missing). This holds for any key and column, in particular for the country and the
  industry comparison tables.
\<close>

theorem C9_single_row_group_mean:
  "(filter (\<lambda>r. key r = k) fv = [r] \<longrightarrow>
      map_of (groupby_mean key col fv) k = Some (col r)
      \<and> (k, col r) \<in> set (groupby_mean key col fv))
   \<and> (filter (\<lambda>r. Country r = c) fv = [rc] \<longrightarrow>
      map_of (country_metric m fv) c = Some (column m rc))
   \<and> (filter (\<lambda>r. Industry r = i) fv = [ri] \<longrightarrow>
      map_of (industry_metric m fv) i = Some (column m ri))"
proof -
  have one: "map_of (groupby_mean f cl fv) x = Some (cl y)
             \<and> (x, cl y) \<in> set (groupby_mean f cl fv)"
    if a: "filter (\<lambda>r. f r = x) fv = [y]" for f :: "row \<Rightarrow> 'b::linorder" and cl x y
  proof -
    have "y \<in> set (filter (\<lambda>r. f r = x) fv)" using a by simp
    then have "x \<in> f ` set fv" by auto
    then show ?thesis
      by (simp add: map_of_groupby_mean in_groupby_mean a series_mean_single)
  qed
  show ?thesis
    unfolding country_metric_def industry_metric_def
    using one [of key k r col] one [of Country c rc "column m"]
          one [of Industry i ri "column m"]
    by blast
qed

theorem C9_uk_single_row_scenario:
  "filter (\<lambda>r. Country r = ''UK'') example_df = [mk_row 2021 ''UK'' ''Retail'' (Some 30) (Some 5)]
   \<and> filter (\<lambda>r. Industry r = ''Retail'') example_df
       = [mk_row 2021 ''UK'' ''Retail'' (Some 30) (Some 5)]
   \<and> map_of (groupby_mean Country AI_Adoption_Rate example_df) ''UK'' = Some (Some 30)
   \<and> map_of (country_metric AI_Adoption_Rate_pct example_df) ''UK'' = Some (Some 30)
   \<and> map_of (industry_metric AI_Adoption_Rate_pct example_df) ''Retail'' = Some (Some 30)"
  using C9_single_row_group_mean
          [where fv = example_df and key = Country and k = "''UK''" and col = AI_Adoption_Rate
             and r = "mk_row 2021 ''UK'' ''Retail'' (Some 30) (Some 5)"
             and c = "''UK''" and rc = "mk_row 2021 ''UK'' ''Retail'' (Some 30) (Some 5)"
             and i = "''Retail''" and ri = "mk_row 2021 ''UK'' ''Retail'' (Some 30) (Some 5)"
             and m = AI_Adoption_Rate_pct]
  by (simp add: example_df_def mk_row_def)

subsection \<open>Row order\<close>

lemma sort_unique_cong:
  assumes "set xs = set ys"
  shows "sort (unique xs) = sort (unique (ys :: 'a::linorder list))"
proof (rule sorted_distinct_set_unique)
  show "set (sort (unique xs)) = set (sort (unique ys))"
    by (simp add: set_unique assms)
qed (simp_all add: distinct_unique)

lemma groupby_mean_mset:
  assumes "mset fv = mset fv'"
  shows "groupby_mean key col fv = groupby_mean key col fv'"
proof -
  have s: "set fv = set fv'" using assms by (rule mset_eq_setD)
  have k: "sort (unique (map key fv)) = sort (unique (map key fv'))"
    by (rule sort_unique_cong) (simp add: s)
  have g: "series_mean (map col (filter (\<lambda>r. key r = c) fv))
             = series_mean (map col (filter (\<lambda>r. key r = c) fv'))" for c
    by (rule series_mean_mset) (simp add: assms)
  show ?thesis
    by (simp only: groupby_mean_tabulate k g)
qed

lemma value_counts_mset:
  assumes "mset xs = mset ys"
  shows "set (value_counts xs) = set (value_counts ys)"
proof -
  have c: "length (filter (\<lambda>x. x = k) xs) = length (filter (\<lambda>x. x = k) ys)" for k
  proof -
    have "mset (filter (\<lambda>x. x = k) xs) = mset (filter (\<lambda>x. x = k) ys)"
      by (simp add: assms)
    then show ?thesis by (metis size_mset)
  qed
  have s: "set xs = set ys" using assms by (rule mset_eq_setD)
  show ?thesis
    by (simp add: value_counts_def set_unique s c)
qed

lemma series_sum_mset:
  assumes "mset xs = mset ys"
  shows "series_sum xs = series_sum ys"
proof -
  have "mset (dropna xs) = mset (dropna ys)"
    by (simp add: mset_dropna assms)
  then have "sum_list (dropna xs) = sum_list (dropna ys)"
    by (metis sum_mset_sum_list)
  then show ?thesis by (simp add: series_sum_def)
qed

lemma keys_groupby_mean_f64:
  "map fst (groupby_mean_f64 key col df) = map fst (groupby_mean key col df)"
  by (simp add: groupby_mean_f64_def groupby_mean_def comp_def case_prod_beta)

lemma group_mean_f64_cancelling:
  "group_mean_f64 [Some 10000000000000000, Some 1, Some (- 10000000000000000)] = Fin 0"
  by code_simp

lemma group_mean_f64_cancelling_permuted:
  "group_mean_f64 [Some 10000000000000000, Some (- 10000000000000000), Some 1]
     = Fin (6004799503160661 / 18014398509481984)"
  by code_simp

lemma mset_cancelling_df: "mset cancelling_df = mset cancelling_df_permuted"
  by (simp add: cancelling_df_def cancelling_df_permuted_def)

text \<open>
  C8 (as stated). The claim says that a group-by mean gives the same (key, value) pairs
  on every permutation of the rows. The three rows of \<open>cancelling_df\<close> have the
  adoption values \<open>10^16\<close>, \<open>1\<close> and \<open>-10^16\<close>. In doubles, \<open>10^16 + 1\<close> rounds
  back to \<open>10^16\<close>, so in this row order the 1 is lost and the mean reported for USA
  is 0; with the last two rows exchanged the large values cancel first and the mean is
  the double nearest to 1/3.
\<close>

theorem C8_group_mean_depends_on_row_order:
  "mset cancelling_df = mset cancelling_df_permuted
   \<and> country_metric_f64 AI_Adoption_Rate_pct cancelling_df = [(''USA'', Fin 0)]
   \<and> country_metric_f64 AI_Adoption_Rate_pct cancelling_df_permuted
       = [(''USA'', Fin (6004799503160661 / 18014398509481984))]
   \<and> set (country_metric_f64 AI_Adoption_Rate_pct cancelling_df)
       \<noteq> set (country_metric_f64 AI_Adoption_Rate_pct cancelling_df_permuted)"
proof -
  have a: "country_metric_f64 AI_Adoption_Rate_pct cancelling_df = [(''USA'', Fin 0)]"
    by (simp add: country_metric_f64_def groupby_mean_f64_def groupby_def sorted_py_def
        unique_def cancelling_df_def mk_row_def group_mean_f64_cancelling)
  have b: "country_metric_f64 AI_Adoption_Rate_pct cancelling_df_permuted
             = [(''USA'', Fin (6004799503160661 / 18014398509481984))]"
    by (simp add: country_metric_f64_def groupby_mean_f64_def groupby_def sorted_py_def
        unique_def cancelling_df_permuted_def mk_row_def group_mean_f64_cancelling_permuted)
  show ?thesis
    by (simp add: a b mset_cancelling_df)
qed

text \<open>
  C8 (amended). For every filtered frame and every permutation of its rows, a group-by
  aggregation on the permuted rows has the same group keys in the same order (for the
  means in doubles as for the exact ones), the count aggregation has the same set of
  (key, count) pairs, and the mean of every group and the sum of a column are the same
  when computed in exact arithmetic; their double-precision values are not claimed to
  be the same.
\<close>

theorem C8_keys_counts_and_exact_values_order_independent:
  assumes "mset fv = mset fv'"
  shows "map fst (groupby_mean_f64 key col fv) = map fst (groupby_mean_f64 key col fv')
       \<and> map fst (country_metric_f64 m fv) = map fst (country_metric_f64 m fv')
       \<and> map fst (industry_metric_f64 m fv) = map fst (industry_metric_f64 m fv')
       \<and> set (tool_counts fv) = set (tool_counts fv')
       \<and> groupby_mean key col fv = groupby_mean key col fv'
       \<and> country_metric m fv = country_metric m fv'
       \<and> industry_metric m fv = industry_metric m fv'
       \<and> total_content fv = total_content fv'"
proof -
  note e = groupby_mean_mset [OF assms]
  have t: "set (tool_counts fv) = set (tool_counts fv')"
    unfolding tool_counts_def by (rule value_counts_mset) (simp add: assms)
  have c: "total_content fv = total_content fv'"
    unfolding total_content_def by (rule series_sum_mset) (simp add: assms)
  show ?thesis
    by (simp only: keys_groupby_mean_f64 country_metric_f64_def industry_metric_f64_def
        country_metric_def industry_metric_def e t c simp_thms)
qed

theorem C8_cancelling_rows_scenario:
  "mset cancelling_df = mset cancelling_df_permuted
   \<and> map fst (country_metric_f64 AI_Adoption_Rate_pct cancelling_df) = [''USA'']
   \<and> map fst (country_metric_f64 AI_Adoption_Rate_pct cancelling_df_permuted) = [''USA'']
   \<and> country_metric AI_Adoption_Rate_pct cancelling_df_permuted = [(''USA'', Some (1 / 3))]
   \<and> country_metric AI_Adoption_Rate_pct cancelling_df = [(''USA'', Some (1 / 3))]"
proof -
  have k: "map fst (country_metric_f64 AI_Adoption_Rate_pct cancelling_df_permuted) = [''USA'']"
    by (simp add: country_metric_f64_def keys_groupby_mean_f64 map_fst_groupby_mean
        sorted_py_def unique_def cancelling_df_permuted_def mk_row_def)
  have v: "country_metric AI_Adoption_Rate_pct cancelling_df_permuted = [(''USA'', Some (1 / 3))]"
    by (simp add: country_metric_def groupby_mean_def groupby_def sorted_py_def unique_def
        cancelling_df_permuted_def mk_row_def series_mean_def)
  show ?thesis
    using C8_keys_counts_and_exact_values_order_independent
            [OF mset_cancelling_df, of Country AI_Adoption_Rate AI_Adoption_Rate_pct]
          k v mset_cancelling_df
    by simp
qed

end
